theory Spec2Isabelle
  imports Main "HOL-Library.Sublist"
begin

section \<open>Strings and paths\<close>

text \<open>
  The program is one Python module, \<^verbatim>\<open>iMessage-extractor.py\<close>. Several of its functions
  are defined more than once; Python keeps the last definition of a name, so the model
  follows the last \<^verbatim>\<open>print_progress\<close>, \<^verbatim>\<open>connect_to_database\<close>,
  \<^verbatim>\<open>export_conversations\<close> and \<^verbatim>\<open>print_summary\<close>, and the only
  \<^verbatim>\<open>copy_attachment\<close>.

  A Python \<^verbatim>\<open>str\<close> is modelled as a \<^typ>\<open>string\<close>, one \<^typ>\<open>char\<close> for one
  code point; a value that may be \<^verbatim>\<open>None\<close> is an \<^typ>\<open>'a option\<close>.
\<close>

definition truthy :: "string option \<Rightarrow> bool" where
  \<comment> \<open>Python truth of a nullable string: neither \<^verbatim>\<open>None\<close> nor empty.\<close>
  "truthy v = (case v of None \<Rightarrow> False | Some s \<Rightarrow> s \<noteq> [])"

definition py_or :: "string option \<Rightarrow> string option \<Rightarrow> string option" where
  \<comment> \<open>\<^verbatim>\<open>a or b\<close>\<close>
  "py_or a b = (if truthy a then a else b)"

definition or_default :: "string option \<Rightarrow> string \<Rightarrow> string" where
  \<comment> \<open>\<^verbatim>\<open>a or "literal"\<close>; with the empty literal, the string of a value known to be
      true\<close>
  "or_default a d = (case a of None \<Rightarrow> d | Some s \<Rightarrow> if s \<noteq> [] then s else d)"

definition replace_char :: "char \<Rightarrow> char \<Rightarrow> string \<Rightarrow> string" where
  \<comment> \<open>\<^verbatim>\<open>name.replace(char, '_')\<close> for a one-character pattern\<close>
  "replace_char c r s = map (\<lambda>x. if x = c then r else x) s"

definition strip_chars :: "char list \<Rightarrow> string \<Rightarrow> string" where
  \<comment> \<open>\<^verbatim>\<open>s.strip(chars)\<close>: drop the given characters from both ends\<close>
  "strip_chars cs s =
     rev (dropWhile (\<lambda>c. c \<in> set cs) (rev (dropWhile (\<lambda>c. c \<in> set cs) s)))"

definition whitespace :: "char list" where
  \<comment> \<open>the ASCII characters \<^verbatim>\<open>str.strip()\<close> removes: tab, LF, VT, FF, CR, FS, GS, RS, US, space\<close>
  "whitespace = [CHR 0x09, CHR 0x0A, CHR 0x0B, CHR 0x0C, CHR 0x0D,
                 CHR 0x1C, CHR 0x1D, CHR 0x1E, CHR 0x1F, CHR 0x20]"

definition endswith :: "string \<Rightarrow> string \<Rightarrow> bool" where
  "endswith s e = suffix e s"

definition lower_char :: "char \<Rightarrow> char" where
  "lower_char c =
     (case map_of (zip ''ABCDEFGHIJKLMNOPQRSTUVWXYZ'' ''abcdefghijklmnopqrstuvwxyz'') c of
        None \<Rightarrow> c | Some l \<Rightarrow> l)"

definition lower :: "string \<Rightarrow> string" where
  "lower s = map lower_char s"

definition basename :: "string \<Rightarrow> string" where
  \<comment> \<open>\<^verbatim>\<open>os.path.basename\<close> (POSIX): what follows the last slash\<close>
  "basename p = rev (takeWhile (\<lambda>c. c \<noteq> CHR ''/'') (rev p))"

definition join :: "string \<Rightarrow> string \<Rightarrow> string" where
  \<comment> \<open>\<^verbatim>\<open>os.path.join(a, b)\<close> (POSIX): an absolute \<open>b\<close> replaces \<open>a\<close>\<close>
  "join a b =
     (if b \<noteq> [] \<and> hd b = CHR ''/'' then b
      else if a = [] \<or> last a = CHR ''/'' then a @ b
      else a @ ''/'' @ b)"

definition expanduser :: "string \<Rightarrow> string \<Rightarrow> string" where
  \<comment> \<open>\<^verbatim>\<open>os.path.expanduser\<close> with the home directory \<open>home\<close>. Only a leading \<^verbatim>\<open>~\<close>
      followed by a slash or the end is expanded; \<^verbatim>\<open>~name\<close> is left as it is (what
      Python does for a user it does not know).\<close>
  "expanduser home p =
     (if p = [] \<or> hd p \<noteq> CHR ''~'' then p
      else if takeWhile (\<lambda>c. c \<noteq> CHR ''/'') p = ''~''
      then (let h = rev (dropWhile (\<lambda>c. c = CHR ''/'') (rev home));
                r = h @ dropWhile (\<lambda>c. c \<noteq> CHR ''/'') p
            in if r = [] then ''/'' else r)
      else p)"

section \<open>Utility functions\<close>

definition problematic_chars :: "char list" where
  "problematic_chars =
     [CHR '':'', CHR ''/'', CHR 0x5C, CHR ''<'', CHR ''>'', CHR 0x22, CHR ''|'', CHR ''?'', CHR ''*'']"

definition sanitize_filename :: "string option \<Rightarrow> string" where
  "sanitize_filename name =
     (case name of
        None \<Rightarrow> ''Unknown''
      | Some n \<Rightarrow>
          if n = [] then ''Unknown''
          else
            let n1 = foldl (\<lambda>s c. replace_char c CHR ''_'' s) n problematic_chars;
                n2 = strip_chars '' .'' n1;
                n3 = (if length n2 > 100 then take 100 n2 else n2)
            in if n3 \<noteq> [] then n3 else ''Unknown'')"

definition plugin_extensions :: "string list" where
  "plugin_extensions =
     [''.pluginPayloadAttachment'', ''.balloon'', ''.app'', ''.handwriting'', ''.digitaltouchdata'']"

definition is_plugin_attachment :: "string option \<Rightarrow> bool" where
  "is_plugin_attachment filename =
     (case filename of
        None \<Rightarrow> False
      | Some f \<Rightarrow>
          if f = [] then False
          else list_ex (\<lambda>ext. endswith (lower f) (lower ext)) plugin_extensions)"

section \<open>Timestamp codec\<close>

text \<open>
  Exceptions are values. \<open>format_timestamp\<close> catches \<^verbatim>\<open>ValueError\<close> and
  \<^verbatim>\<open>OverflowError\<close> only, so its result type keeps the exception case.

  The three library steps of \<^verbatim>\<open>mac_epoch + datetime.timedelta(seconds=timestamp / 1000000000)\<close>
  are modelled on CPython's \<^verbatim>\<open>datetime\<close>: the true division of two integers raises
  \<^verbatim>\<open>OverflowError\<close> when the quotient is too large for a float; \<^verbatim>\<open>timedelta\<close>
  rounds to whole microseconds (half to even) and raises \<^verbatim>\<open>OverflowError\<close> when the
  day count exceeds 999999999 in magnitude; adding to a \<^verbatim>\<open>datetime\<close> raises
  \<^verbatim>\<open>OverflowError\<close> when the date leaves years 1 to 9999. The quotient is kept exact
  (as the nanosecond count): the rounding of the binary float, which moves a value by
  less than one part in \<open>2 ^ 52\<close>, is not modelled.
\<close>

datatype exn =
  KeyError string | OSError string | OverflowError | ValueError | TypeError | SqliteError

definition true_div_1e9 :: "int \<Rightarrow> exn + int" where
  \<comment> \<open>\<^verbatim>\<open>timestamp / 1000000000\<close>; the float is represented by its nanoseconds\<close>
  "true_div_1e9 ts = (if \<bar>ts\<bar> \<ge> 1000000000 * 2 ^ 1024 then Inl OverflowError else Inr ts)"

definition round_half_even_div :: "int \<Rightarrow> int \<Rightarrow> int" where
  "round_half_even_div a b =
     (let q = a div b; r = a mod b
      in if 2 * r < b then q else if 2 * r > b then q + 1 else if even q then q else q + 1)"

definition timedelta_seconds :: "int \<Rightarrow> exn + int" where
  \<comment> \<open>\<^verbatim>\<open>datetime.timedelta(seconds=x)\<close>, as a count of microseconds\<close>
  "timedelta_seconds ns =
     (let us = round_half_even_div ns 1000
      in if \<bar>us div 86400000000\<bar> > 999999999 then Inl OverflowError else Inr us)"

definition mac_epoch_ordinal :: int where
  \<comment> \<open>\<^verbatim>\<open>datetime.datetime(2001, 1, 1).toordinal()\<close>\<close>
  "mac_epoch_ordinal = 730486"

definition max_ordinal :: int where
  \<comment> \<open>the ordinal of 9999-12-31\<close>
  "max_ordinal = 3652059"

definition datetime_add :: "int \<Rightarrow> exn + int \<times> int" where
  \<comment> \<open>\<^verbatim>\<open>mac_epoch + delta\<close>: the ordinal of the day and the second of the day\<close>
  "datetime_add us =
     (let ordinal = mac_epoch_ordinal + us div 86400000000;
          sec = (us mod 86400000000) div 1000000
      in if 0 < ordinal \<and> ordinal \<le> max_ordinal then Inr (ordinal, sec) else Inl OverflowError)"

definition days_before_month :: "int \<Rightarrow> int" where
  "days_before_month m = [0, 0, 31, 59, 90, 120, 151, 181, 212, 243, 273, 304, 334] ! nat m"

definition days_in_month :: "int \<Rightarrow> int" where
  "days_in_month m = [0, 31, 28, 31, 30, 31, 30, 31, 31, 30, 31, 30, 31] ! nat m"

definition ord2ymd :: "int \<Rightarrow> int \<times> int \<times> int" where
  \<comment> \<open>the proleptic Gregorian date of an ordinal, by the steps of \<^verbatim>\<open>datetime\<close>\<close>
  "ord2ymd ordinal =
     (let n0 = ordinal - 1;
          n400 = n0 div 146097; r400 = n0 mod 146097;
          n100 = r400 div 36524; r100 = r400 mod 36524;
          n4 = r100 div 1461; r4 = r100 mod 1461;
          n1 = r4 div 365; n = r4 mod 365;
          year = n400 * 400 + 1 + n100 * 100 + n4 * 4 + n1
      in if n1 = 4 \<or> n100 = 4 then (year - 1, 12, 31)
         else
           let leapyear = (n1 = 3 \<and> (n4 \<noteq> 24 \<or> n100 = 3));
               month = (n + 50) div 32;
               preceding = days_before_month month + (if month > 2 \<and> leapyear then 1 else 0)
           in if preceding > n
              then (let month' = month - 1;
                        preceding' = preceding
                          - (days_in_month month' + (if month' = 2 \<and> leapyear then 1 else 0))
                    in (year, month', n - preceding' + 1))
              else (year, month, n - preceding + 1))"

definition digit_char :: "nat \<Rightarrow> char" where
  "digit_char d = ''0123456789'' ! (d mod 10)"

fun show_nat :: "nat \<Rightarrow> string" where
  "show_nat n = (if n < 10 then [digit_char n] else show_nat (n div 10) @ [digit_char (n mod 10)])"

definition pad2 :: "int \<Rightarrow> string" where
  "pad2 n = [digit_char (nat n div 10), digit_char (nat n)]"

definition pad4 :: "int \<Rightarrow> string" where
  "pad4 n = [digit_char (nat n div 1000), digit_char (nat n div 100),
             digit_char (nat n div 10), digit_char (nat n)]"

definition strftime :: "int \<times> int \<Rightarrow> string" where
  \<comment> \<open>\<^verbatim>\<open>dt.strftime("%Y-%m-%d %H:%M:%S")\<close>\<close>
  "strftime dt =
     (case dt of (ordinal, sec) \<Rightarrow>
        (case ord2ymd ordinal of (y, m, d) \<Rightarrow>
           pad4 y @ ''-'' @ pad2 m @ ''-'' @ pad2 d @ '' ''
           @ pad2 (sec div 3600) @ '':'' @ pad2 ((sec mod 3600) div 60) @ '':'' @ pad2 (sec mod 60)))"

definition timestamp_string :: "int \<Rightarrow> exn + string" where
  \<comment> \<open>the body of the \<^verbatim>\<open>try\<close>\<close>
  "timestamp_string ts =
     (case true_div_1e9 ts of
        Inl e \<Rightarrow> Inl e
      | Inr x \<Rightarrow>
          (case timedelta_seconds x of
             Inl e \<Rightarrow> Inl e
           | Inr delta \<Rightarrow>
               (case datetime_add delta of
                  Inl e \<Rightarrow> Inl e
                | Inr dt \<Rightarrow> Inr (strftime dt))))"

definition format_timestamp :: "int option \<Rightarrow> exn + string" where
  "format_timestamp timestamp =
     (case timestamp of
        None \<Rightarrow> Inr ''Unknown Time''
      | Some ts \<Rightarrow>
          if ts \<noteq> 0
          then (case timestamp_string ts of
                  Inl e \<Rightarrow> if e = ValueError \<or> e = OverflowError then Inr ''Unknown Time'' else Inl e
                | Inr s \<Rightarrow> Inr s)
          else Inr ''Unknown Time'')"

section \<open>Data model: rows, statistics, filesystem\<close>

text \<open>
  Rows are the tuples the queries return, with the column names of the SQL text. The
  database is the external collaborator: for each query it either raises
  \<^verbatim>\<open>sqlite3.Error\<close> (\<open>None\<close>) or returns the rows.
\<close>

record attachment =
  filename :: "string option"
  transfer_name :: "string option"
  mime_type :: "string option"
  total_bytes :: "int option"

record message =
  msg_date :: "int option"
  msg_text :: "string option"
  is_from_me :: int
  sender_handle :: "string option"
  message_id :: int

record chat_info =
  display_name :: "string option"
  handles :: "string list"
  chat_identifier :: string

type_synonym chat_row = "string \<times> string option \<times> string option \<times> string option"

record database =
  connect_error :: bool
  count_error :: bool
  chat_rows :: "chat_row list option"
  message_rows :: "string \<Rightarrow> message list option"
  attachment_rows :: "int \<Rightarrow> attachment list option"

text \<open>
  The filesystem is an existence check and a byte copy: a map from paths to nodes, and
  the set of paths on which the operating system refuses an operation
  (\<^verbatim>\<open>OSError\<close>). Intermediate directories are not tracked.
\<close>

datatype node = Dir | File string

record filesystem =
  nodes :: "string \<rightharpoonup> node"
  refused :: "string set"

definition path_exists :: "filesystem \<Rightarrow> string \<Rightarrow> bool" where
  \<comment> \<open>\<^verbatim>\<open>os.path.exists\<close>\<close>
  "path_exists fs p = (nodes fs p \<noteq> None)"

definition makedirs :: "string \<Rightarrow> filesystem \<Rightarrow> exn + filesystem" where
  \<comment> \<open>\<^verbatim>\<open>os.makedirs(p, exist_ok=True)\<close>\<close>
  "makedirs p fs =
     (case nodes fs p of
        Some Dir \<Rightarrow> Inr fs
      | Some (File d) \<Rightarrow> Inl (OSError (''File exists: '' @ p))
      | None \<Rightarrow>
          if p \<in> refused fs then Inl (OSError (''Permission denied: '' @ p))
          else Inr (fs\<lparr>nodes := (nodes fs)(p \<mapsto> Dir)\<rparr>))"

definition write_file :: "string \<Rightarrow> string \<Rightarrow> filesystem \<Rightarrow> exn + filesystem" where
  \<comment> \<open>\<^verbatim>\<open>with open(p, 'w') as f: f.write(data)\<close>\<close>
  "write_file p data fs =
     (if nodes fs p = Some Dir then Inl (OSError (''Is a directory: '' @ p))
      else if p \<in> refused fs then Inl (OSError (''Permission denied: '' @ p))
      else Inr (fs\<lparr>nodes := (nodes fs)(p \<mapsto> File data)\<rparr>))"

definition open_append :: "string \<Rightarrow> filesystem \<Rightarrow> exn + filesystem" where
  \<comment> \<open>opening a file in append mode creates it when it is missing; the text logged to
      it is not modelled\<close>
  "open_append p fs =
     (case nodes fs p of
        Some Dir \<Rightarrow> Inl (OSError (''Is a directory: '' @ p))
      | Some (File d) \<Rightarrow>
          if p \<in> refused fs then Inl (OSError (''Permission denied: '' @ p)) else Inr fs
      | None \<Rightarrow>
          if p \<in> refused fs then Inl (OSError (''Permission denied: '' @ p))
          else Inr (fs\<lparr>nodes := (nodes fs)(p \<mapsto> File [])\<rparr>))"

definition copy2 :: "string \<Rightarrow> string \<Rightarrow> filesystem \<Rightarrow> exn + filesystem" where
  \<comment> \<open>\<^verbatim>\<open>shutil.copy2(src, dst)\<close>: a destination that is a directory receives the file
      under the source's base name\<close>
  "copy2 src dst fs =
     (let dst' = (if nodes fs dst = Some Dir then join dst (basename src) else dst)
      in case nodes fs src of
           None \<Rightarrow> Inl (OSError (''No such file or directory: '' @ src))
         | Some Dir \<Rightarrow> Inl (OSError (''Is a directory: '' @ src))
         | Some (File d) \<Rightarrow>
             if src \<in> refused fs then Inl (OSError (''Permission denied: '' @ src))
             else if dst' \<in> refused fs then Inl (OSError (''Permission denied: '' @ dst'))
             else Inr (fs\<lparr>nodes := (nodes fs)(dst' \<mapsto> File d)\<rparr>))"

text \<open>
  \<^verbatim>\<open>self.stats\<close> is a dictionary from key strings to values; reading or
  incrementing a key that is not there raises \<^verbatim>\<open>KeyError\<close>. The run's state is the
  dictionary and the filesystem. A stateful step returns its result (or the exception it
  raises) together with the state it leaves behind.
\<close>

datatype stat = Num int | Items "string list"

record state =
  stats :: "string \<rightharpoonup> stat"
  fs :: filesystem

text \<open>
  The module's settings: the constants \<^verbatim>\<open>DRY_RUN\<close> and \<^verbatim>\<open>RESUME_MODE\<close>, the
  attribute \<^verbatim>\<open>CONFIG.SEARCH_ALTERNATIVE_LOCATIONS\<close>, and the home directory that
  \<^verbatim>\<open>os.path.expanduser\<close> reads from the environment.
\<close>

record config =
  DRY_RUN :: bool
  RESUME_MODE :: bool
  SEARCH_ALTERNATIVE_LOCATIONS :: bool
  HOME :: string

definition OUTPUT_DIR :: string where
  "OUTPUT_DIR = ''/Volumes/Coding/Python/iMessageExtractor/iMessageExport''"

definition CHAT_DB_PATH :: "config \<Rightarrow> string" where
  "CHAT_DB_PATH cfg = expanduser (HOME cfg) ''~/Library/Messages/chat.db''"


definition then_do ::
  "(exn + 'a) \<times> state \<Rightarrow> ('a \<Rightarrow> state \<Rightarrow> (exn + 'b) \<times> state) \<Rightarrow> (exn + 'b) \<times> state" where
  \<comment> \<open>sequencing: an exception of the first step ends the computation in its state\<close>
  "then_do r f = (case r of (Inl e, st) \<Rightarrow> (Inl e, st) | (Inr a, st) \<Rightarrow> f a st)"

definition lookup :: "string \<Rightarrow> state \<Rightarrow> (exn + stat) \<times> state" where
  \<comment> \<open>\<^verbatim>\<open>self.stats[key]\<close>\<close>
  "lookup key st = (case stats st key of None \<Rightarrow> (Inl (KeyError key), st) | Some v \<Rightarrow> (Inr v, st))"

definition positive :: "stat \<Rightarrow> state \<Rightarrow> (exn + bool) \<times> state" where
  \<comment> \<open>\<^verbatim>\<open>v > 0\<close>\<close>
  "positive v st = (case v of Num n \<Rightarrow> (Inr (n > 0), st) | Items xs \<Rightarrow> (Inl TypeError, st))"

definition incr :: "string \<Rightarrow> state \<Rightarrow> (exn + unit) \<times> state" where
  \<comment> \<open>\<^verbatim>\<open>self.stats[key] += 1\<close>\<close>
  "incr key st =
     (case stats st key of
        None \<Rightarrow> (Inl (KeyError key), st)
      | Some (Num n) \<Rightarrow> (Inr (), st\<lparr>stats := (stats st)(key \<mapsto> Num (n + 1))\<rparr>)
      | Some (Items xs) \<Rightarrow> (Inl TypeError, st))"

definition on_disk :: "(filesystem \<Rightarrow> exn + filesystem) \<Rightarrow> state \<Rightarrow> (exn + unit) \<times> state" where
  \<comment> \<open>a filesystem operation as a step of the run\<close>
  "on_disk op st = (case op (fs st) of Inl e \<Rightarrow> (Inl e, st) | Inr fs' \<Rightarrow> (Inr (), st\<lparr>fs := fs'\<rparr>))"

definition init_stats :: "string \<rightharpoonup> stat" where
  \<comment> \<open>\<^verbatim>\<open>iMessageExporter.__init__\<close>\<close>
  "init_stats =
     [''conversations'' \<mapsto> Num 0, ''messages'' \<mapsto> Num 0, ''attachments_found'' \<mapsto> Num 0,
      ''attachments_copied'' \<mapsto> Num 0, ''attachments_skipped'' \<mapsto> Num 0,
      ''attachments_failed'' \<mapsto> Num 0, ''contacts_processed'' \<mapsto> Num 0]"

section \<open>Database reader\<close>

definition connect_to_database :: "config \<Rightarrow> database \<Rightarrow> filesystem \<Rightarrow> bool" where
  \<comment> \<open>whether a connection is returned (rather than \<^verbatim>\<open>None\<close>)\<close>
  "connect_to_database cfg db disk =
     (if \<not> path_exists disk (CHAT_DB_PATH cfg) then False
      else if connect_error db then False
      else True)"

fun add_chat_row :: "(string \<times> chat_info) list \<Rightarrow> chat_row \<Rightarrow> (string \<times> chat_info) list" where
  "add_chat_row chats (chat_id, dname, room_name, phone_or_email) =
     (let chats1 =
            (if chat_id \<notin> fst ` set chats
             then chats @ [(chat_id, \<lparr>display_name = py_or dname room_name, handles = [],
                                       chat_identifier = chat_id\<rparr>)]
             else chats)
      in case phone_or_email of
           None \<Rightarrow> chats1
         | Some h \<Rightarrow>
             if h = [] then chats1
             else map (\<lambda>(k, info).
                         if k = chat_id \<and> h \<notin> set (handles info)
                         then (k, info\<lparr>handles := handles info @ [h]\<rparr>)
                         else (k, info)) chats1)"

definition get_contacts_and_chats :: "database \<Rightarrow> exn + (string \<times> chat_info) list" where
  \<comment> \<open>The dictionary is kept as a list of its items in insertion order, and a set of
      handles as the list of its elements in insertion order (Python fixes no order for
      a set). The count query runs outside the \<^verbatim>\<open>try\<close>.\<close>
  "get_contacts_and_chats db =
     (if count_error db then Inl SqliteError
      else case chat_rows db of
             None \<Rightarrow> Inr []
           | Some results \<Rightarrow> Inr (foldl add_chat_row [] results))"

definition get_messages_for_chat :: "database \<Rightarrow> string \<Rightarrow> message list" where
  "get_messages_for_chat db chat_id =
     (case message_rows db chat_id of None \<Rightarrow> [] | Some rows \<Rightarrow> rows)"

definition get_attachments_for_message :: "database \<Rightarrow> int \<Rightarrow> attachment list" where
  "get_attachments_for_message db mid =
     (case attachment_rows db mid of None \<Rightarrow> [] | Some rows \<Rightarrow> rows)"

section \<open>Attachment resolver\<close>

text \<open>
  \<open>copy_attachment\<close> returns a pair \<^verbatim>\<open>(success, result)\<close>. In the words of the
  specification, \<^verbatim>\<open>(False, reason)\<close> is the outcome Failed, and \<^verbatim>\<open>(True, name)\<close>
  is Copied, or SkippedExisting when the call went through the resume branch, which is
  the branch that increments \<^verbatim>\<open>attachments_skipped\<close>.
\<close>

definition dest_filename :: "string \<Rightarrow> string option \<Rightarrow> string" where
  \<comment> \<open>the local variable \<^verbatim>\<open>dest_filename\<close>, from a non-empty recorded path and the
      transfer name\<close>
  "dest_filename fname tname =
     (if basename fname \<noteq> [] then basename fname else or_default tname ''unknown_attachment'')"

definition copy_attachment ::
  "config \<Rightarrow> attachment \<Rightarrow> string \<Rightarrow> state \<Rightarrow> (exn + bool \<times> string) \<times> state" where
  "copy_attachment cfg attachment_info destination_folder st =
     (case filename attachment_info of
        None \<Rightarrow> (Inr (False, ''No filename provided''), st)
      | Some fname \<Rightarrow>
          if fname = [] then (Inr (False, ''No filename provided''), st)
          else
            let source_path = expanduser (HOME cfg) fname;
                dest_name = dest_filename fname (transfer_name attachment_info);
                dest_path = join destination_folder dest_name
            in if RESUME_MODE cfg \<and> path_exists (fs st) dest_path
               then then_do (incr ''attachments_skipped'' st)
                      (\<lambda>u st1. (Inr (True, dest_name), st1))
               else if \<not> path_exists (fs st) source_path
               then (Inr (False, ''Source file not found: '' @ source_path), st)
               else if DRY_RUN cfg then (Inr (True, dest_name), st)
               else (case copy2 source_path dest_path (fs st) of
                       Inl (OSError m) \<Rightarrow> (Inr (False, ''Copy failed: '' @ m), st)
                     | Inl e \<Rightarrow> (Inl e, st)
                     | Inr disk \<Rightarrow> (Inr (True, dest_name), st\<lparr>fs := disk\<rparr>)))"

section \<open>Conversation assembler and export orchestrator\<close>

definition folder_name :: "chat_info \<Rightarrow> string" where
  "folder_name info =
     (if truthy (display_name info)
      then (case handles info of
              [] \<Rightarrow> or_default (display_name info) []
            | h # hs \<Rightarrow> or_default (display_name info) [] @ '' ('' @ h @ '')'')
      else (case handles info of
              [] \<Rightarrow> (if chat_identifier info \<noteq> [] then chat_identifier info else ''Unknown Contact'')
            | h # hs \<Rightarrow> h))"

definition create_contact_folder :: "config \<Rightarrow> chat_info \<Rightarrow> state \<Rightarrow> (exn + string) \<times> state" where
  "create_contact_folder cfg info st =
     (let attachments_dir = join OUTPUT_DIR ''attachments'';
          contact_folder = join attachments_dir (sanitize_filename (Some (folder_name info)))
      in if \<not> DRY_RUN cfg
         then then_do (on_disk (makedirs contact_folder) st) (\<lambda>u st1. (Inr contact_folder, st1))
         else (Inr contact_folder, st))"

definition conversation_header :: "string \<Rightarrow> chat_info \<Rightarrow> string" where
  "conversation_header chat_id info =
     (if truthy (display_name info)
      then (case handles info of
              [] \<Rightarrow> ''=== Conversation with '' @ or_default (display_name info) [] @ '' ===''
            | h # hs \<Rightarrow>
                ''=== Conversation with '' @ or_default (display_name info) [] @ '' ('' @ h @ '') ==='')
      else (case handles info of
              [] \<Rightarrow> ''=== Conversation with '' @ chat_id @ '' ===''
            | h # hs \<Rightarrow> ''=== Conversation with '' @ h @ '' ===''))"

definition line_prefix :: "string \<Rightarrow> string \<Rightarrow> string" where
  \<comment> \<open>\<^verbatim>\<open>f"[{timestamp}] {sender}: "\<close>\<close>
  "line_prefix timestamp sender = ''['' @ timestamp @ ''] '' @ sender @ '': ''"

definition attachment_step ::
  "config \<Rightarrow> string \<Rightarrow> string \<Rightarrow> string \<Rightarrow> attachment list \<Rightarrow> attachment \<Rightarrow> string list \<Rightarrow> state
   \<Rightarrow> (exn + string list) \<times> state" where
  \<comment> \<open>the body of \<^verbatim>\<open>for attachment in attachments\<close>\<close>
  "attachment_step cfg contact_folder timestamp sender attachments attachment messages_content st =
     then_do (incr ''attachments_found'' st) (\<lambda>u st1.
     then_do (copy_attachment cfg attachment contact_folder st1) (\<lambda>r st2.
       case r of (success, result) \<Rightarrow>
         if success
         then then_do (lookup ''attachments_skipped'' st2) (\<lambda>v st3.
              then_do (positive v st3) (\<lambda>pos st4.
              then_do (if Some result \<notin> set (map filename (if pos then attachments else []))
                       then incr ''attachments_copied'' st4 else (Inr (), st4)) (\<lambda>u st5.
                (Inr (messages_content
                       @ [line_prefix timestamp sender @ ''[Attachment: '' @ result @ '']'']), st5))))
         else then_do (incr ''attachments_failed'' st2) (\<lambda>u st3.
                (Inr (messages_content
                       @ [line_prefix timestamp sender @ ''[Missing Attachment: ''
                          @ (if truthy (filename attachment)
                             then basename (or_default (filename attachment) []) else ''unknown'')
                          @ '']'']), st3))))"

fun process_attachments ::
  "config \<Rightarrow> string \<Rightarrow> string \<Rightarrow> string \<Rightarrow> attachment list \<Rightarrow> attachment list \<Rightarrow> string list \<Rightarrow> state
   \<Rightarrow> (exn + string list) \<times> state" where
  "process_attachments cfg contact_folder timestamp sender attachments [] messages_content st =
     (Inr messages_content, st)"
| "process_attachments cfg contact_folder timestamp sender attachments (a # rest) messages_content st =
     (case attachment_step cfg contact_folder timestamp sender attachments a messages_content st of
        (Inl e, st1) \<Rightarrow> (Inl e, st1)
      | (Inr content1, st1) \<Rightarrow>
          process_attachments cfg contact_folder timestamp sender attachments rest content1 st1)"

definition nonblank :: "string option \<Rightarrow> bool" where
  \<comment> \<open>\<^verbatim>\<open>msg_text and msg_text.strip()\<close>\<close>
  "nonblank t = (case t of None \<Rightarrow> False | Some s \<Rightarrow> s \<noteq> [] \<and> strip_chars whitespace s \<noteq> [])"

definition sender_of :: "chat_info \<Rightarrow> message \<Rightarrow> string" where
  "sender_of info m =
     (if is_from_me m \<noteq> 0 then ''You''
      else or_default (py_or (display_name info) (sender_handle m)) ''Unknown'')"

definition text_lines :: "string \<Rightarrow> string \<Rightarrow> message \<Rightarrow> string list" where
  "text_lines timestamp sender m =
     (if nonblank (msg_text m) then [line_prefix timestamp sender @ or_default (msg_text m) []] else [])"

definition message_step ::
  "config \<Rightarrow> database \<Rightarrow> chat_info \<Rightarrow> string \<Rightarrow> message \<Rightarrow> string list \<Rightarrow> state
   \<Rightarrow> (exn + string list) \<times> state" where
  \<comment> \<open>the body of \<^verbatim>\<open>for ... in enumerate(messages)\<close>\<close>
  "message_step cfg db info contact_folder m messages_content st =
     then_do (incr ''messages'' st) (\<lambda>u st1.
       case format_timestamp (msg_date m) of
         Inl e \<Rightarrow> (Inl e, st1)
       | Inr timestamp \<Rightarrow>
           let sender = sender_of info m;
               attachments = get_attachments_for_message db (message_id m)
           in process_attachments cfg contact_folder timestamp sender attachments attachments
                (messages_content @ text_lines timestamp sender m) st1)"

fun process_messages ::
  "config \<Rightarrow> database \<Rightarrow> chat_info \<Rightarrow> string \<Rightarrow> message list \<Rightarrow> string list \<Rightarrow> state
   \<Rightarrow> (exn + string list) \<times> state" where
  "process_messages cfg db info contact_folder [] messages_content st = (Inr messages_content, st)"
| "process_messages cfg db info contact_folder (m # rest) messages_content st =
     (case message_step cfg db info contact_folder m messages_content st of
        (Inl e, st1) \<Rightarrow> (Inl e, st1)
      | (Inr content1, st1) \<Rightarrow> process_messages cfg db info contact_folder rest content1 st1)"

definition chat_step ::
  "config \<Rightarrow> database \<Rightarrow> string \<times> chat_info \<Rightarrow> string list \<Rightarrow> state \<Rightarrow> (exn + string list) \<times> state" where
  \<comment> \<open>the body of \<^verbatim>\<open>for chat_id, chat_info in chats.items()\<close>\<close>
  "chat_step cfg db chat messages_content st =
     (case chat of (chat_id, info) \<Rightarrow>
        let messages = get_messages_for_chat db chat_id
        in if messages = [] then (Inr messages_content, st)
           else
             then_do (incr ''conversations'' st) (\<lambda>u st1.
             then_do (incr ''contacts_processed'' st1) (\<lambda>u st2.
             then_do (create_contact_folder cfg info st2) (\<lambda>contact_folder st3.
             then_do (process_messages cfg db info contact_folder messages
                        (messages_content @ [conversation_header chat_id info]) st3)
               (\<lambda>content1 st4. (Inr (content1 @ [[]]), st4))))))"

fun process_chats ::
  "config \<Rightarrow> database \<Rightarrow> (string \<times> chat_info) list \<Rightarrow> string list \<Rightarrow> state
   \<Rightarrow> (exn + string list) \<times> state" where
  "process_chats cfg db [] messages_content st = (Inr messages_content, st)"
| "process_chats cfg db (c # rest) messages_content st =
     (case chat_step cfg db c messages_content st of
        (Inl e, st1) \<Rightarrow> (Inl e, st1)
      | (Inr content1, st1) \<Rightarrow> process_chats cfg db rest content1 st1)"

fun join_lines :: "string list \<Rightarrow> string" where
  \<comment> \<open>\<^verbatim>\<open>'\n'.join(lines)\<close>\<close>
  "join_lines [] = []"
| "join_lines [l] = l"
| "join_lines (l # ls) = l @ [CHR 0x0A] @ join_lines ls"

definition stat_truthy :: "stat \<Rightarrow> bool" where
  "stat_truthy v = (case v of Num n \<Rightarrow> n \<noteq> 0 | Items xs \<Rightarrow> xs \<noteq> [])"

definition stat_timestamp :: "stat \<Rightarrow> state \<Rightarrow> (exn + string) \<times> state" where
  \<comment> \<open>\<^verbatim>\<open>format_timestamp(v)\<close> on a stored value; a list cannot be divided\<close>
  "stat_timestamp v st =
     (case v of
        Num n \<Rightarrow> (case format_timestamp (Some n) of Inl e \<Rightarrow> (Inl e, st) | Inr s \<Rightarrow> (Inr s, st))
      | Items xs \<Rightarrow> (Inl TypeError, st))"

definition report_head :: string where
  "report_head = ''FAILED ATTACHMENTS REPORT'' @ [CHR 0x0A] @ replicate 50 CHR ''='' @ [CHR 0x0A, CHR 0x0A]"

definition failed_report :: "string list \<Rightarrow> string" where
  "failed_report failed =
     report_head @ ''Total failed: '' @ show_nat (length failed) @ [CHR 0x0A, CHR 0x0A]
     @ concat (map (\<lambda>(i, f). show_nat i @ ''. '' @ f @ [CHR 0x0A])
                 (zip [1 ..< Suc (length failed)] failed))"

definition print_summary :: "config \<Rightarrow> state \<Rightarrow> (exn + unit) \<times> state" where
  \<comment> \<open>Console output is not part of the state; what remains are the dictionary reads in
      the order the function makes them, and the report file.\<close>
  "print_summary cfg st0 =
     then_do (lookup ''earliest_message'' st0) (\<lambda>earliest st.
     then_do (if stat_truthy earliest
              then then_do (lookup ''latest_message'' st) (\<lambda>latest st.
                     if stat_truthy latest
                     then then_do (stat_timestamp earliest st) (\<lambda>e st.
                          then_do (stat_timestamp latest st) (\<lambda>l st. (Inr (), st)))
                     else (Inr (), st))
              else (Inr (), st)) (\<lambda>u st.
     then_do (lookup ''contacts_processed'' st) (\<lambda>v st.
     then_do (lookup ''conversations'' st) (\<lambda>v st.
     then_do (lookup ''messages'' st) (\<lambda>v st.
     then_do (lookup ''attachments_found'' st) (\<lambda>v st.
     then_do (lookup ''attachments_copied'' st) (\<lambda>v st.
     then_do (lookup ''plugin_attachments_skipped'' st) (\<lambda>v st. then_do (positive v st) (\<lambda>b st.
     then_do (lookup ''attachments_found_alternative'' st) (\<lambda>v st. then_do (positive v st) (\<lambda>b st.
     then_do (lookup ''attachments_skipped'' st) (\<lambda>v st. then_do (positive v st) (\<lambda>b st.
     then_do (lookup ''attachments_failed'' st) (\<lambda>v st. then_do (positive v st) (\<lambda>b st.
     then_do (lookup ''failed_files'' st) (\<lambda>failed st.
       if stat_truthy failed \<and> \<not> DRY_RUN cfg
       then (case failed of
               Items xs \<Rightarrow>
                 on_disk (write_file (join OUTPUT_DIR ''failed_attachments.txt'') (failed_report xs)) st
             | Num n \<Rightarrow>
                 then_do (on_disk (write_file (join OUTPUT_DIR ''failed_attachments.txt'') report_head) st)
                   (\<lambda>u st. (Inl TypeError, st)))
       else (Inr (), st)))))))))))))))))"

definition export_steps ::
  "config \<Rightarrow> database \<Rightarrow> (string \<times> chat_info) list \<Rightarrow> state \<Rightarrow> (exn + string list) \<times> state" where
  \<comment> \<open>the \<^verbatim>\<open>try\<close> block from \<^verbatim>\<open># Prepare output\<close> up to the summary: the
      transcript lines collected\<close>
  "export_steps cfg db chats st =
     then_do (if \<not> DRY_RUN cfg
              then then_do (on_disk (makedirs OUTPUT_DIR) st)
                     (\<lambda>u st1. on_disk (makedirs (join OUTPUT_DIR ''attachments'')) st1)
              else (Inr (), st)) (\<lambda>u st1.
     then_do (process_chats cfg db chats [] st1) (\<lambda>messages_content st2.
     then_do (if \<not> DRY_RUN cfg
              then on_disk (write_file (join OUTPUT_DIR ''messages.txt'')
                              (join_lines messages_content)) st2
              else (Inr (), st2)) (\<lambda>u st3. (Inr messages_content, st3))))"

definition export_try :: "config \<Rightarrow> database \<Rightarrow> state \<Rightarrow> (exn + bool) \<times> state" where
  \<comment> \<open>the \<^verbatim>\<open>try\<close> block of \<^verbatim>\<open>export_conversations\<close>\<close>
  "export_try cfg db st =
     (case get_contacts_and_chats db of
        Inl e \<Rightarrow> (Inl e, st)
      | Inr chats \<Rightarrow>
          if chats = [] then (Inr False, st)
          else
            then_do (export_steps cfg db chats st) (\<lambda>messages_content st3.
            then_do (print_summary cfg st3) (\<lambda>u st4. (Inr True, st4))))"

definition export_conversations :: "config \<Rightarrow> database \<Rightarrow> state \<Rightarrow> bool \<times> state" where
  \<comment> \<open>\<^verbatim>\<open>except Exception\<close> turns every exception of the block into \<^verbatim>\<open>False\<close>\<close>
  "export_conversations cfg db st =
     (if \<not> connect_to_database cfg db (fs st) then (False, st)
      else case export_try cfg db st of
             (Inl e, st1) \<Rightarrow> (False, st1)
           | (Inr success, st1) \<Rightarrow> (success, st1))"

definition setup_logging :: "filesystem \<Rightarrow> exn option \<times> filesystem" where
  \<comment> \<open>the exception raised, if any, and the filesystem left: the output directory is
      made and the log file opened for appending, in dry run too\<close>
  "setup_logging disk =
     (case makedirs OUTPUT_DIR disk of
        Inl e \<Rightarrow> (Some e, disk)
      | Inr disk1 \<Rightarrow>
          (case open_append (join OUTPUT_DIR ''export_debug.log'') disk1 of
             Inl e \<Rightarrow> (Some e, disk1)
           | Inr disk2 \<Rightarrow> (None, disk2)))"

definition main :: "config \<Rightarrow> database \<Rightarrow> filesystem \<Rightarrow> int \<times> filesystem" where
  \<comment> \<open>the exit status of the process and the filesystem it leaves; an exception that
      escapes \<^verbatim>\<open>main\<close> ends the interpreter with status 1\<close>
  "main cfg db disk =
     (case setup_logging disk of
        (Some e, disk1) \<Rightarrow> (1, disk1)
      | (None, disk1) \<Rightarrow>
          (case export_conversations cfg db \<lparr>stats = init_stats, fs = disk1\<rparr> of
             (success, st) \<Rightarrow> (if success then 0 else 1, fs st)))"

section \<open>Example inputs\<close>

text \<open>
  The settings of the module as it is shipped (no dry run, resume mode, search flag
  set), an empty disk, and the exporter's state at the start of a run on a disk.
\<close>

definition shipped_config :: config where
  "shipped_config =
     \<lparr>DRY_RUN = False, RESUME_MODE = True, SEARCH_ALTERNATIVE_LOCATIONS = True,
      HOME = ''/Users/me''\<rparr>"

definition empty_disk :: filesystem where
  "empty_disk = \<lparr>nodes = Map.empty, refused = {}\<rparr>"

definition start_state :: "filesystem \<Rightarrow> state" where
  "start_state disk = \<lparr>stats = init_stats, fs = disk\<rparr>"

definition plugin_sticker :: attachment where
  \<comment> \<open>an app payload whose recorded path is not on disk\<close>
  "plugin_sticker =
     \<lparr>filename = Some ''/missing/sticker.pluginPayloadAttachment'', transfer_name = None,
      mime_type = None, total_bytes = None\<rparr>"


text \<open>
  One conversation with Alice: a message from the owner with one photo, and her answer.
  The disk holds the database and the photo.
\<close>

definition photo :: attachment where
  "photo =
     \<lparr>filename = Some ''/a/x.jpg'', transfer_name = Some ''x.jpg'', mime_type = Some ''image/jpeg'',
      total_bytes = Some 3\<rparr>"

definition alice_messages :: "message list" where
  "alice_messages =
     [\<lparr>msg_date = Some 700000000000000000, msg_text = Some ''hi'', is_from_me = 1,
       sender_handle = None, message_id = 1\<rparr>,
      \<lparr>msg_date = Some 700000060000000000, msg_text = Some ''hey'', is_from_me = 0,
       sender_handle = Some ''+15551234567'', message_id = 2\<rparr>]"

definition alice_db :: database where
  "alice_db =
     \<lparr>connect_error = False, count_error = False,
      chat_rows = Some [(''+15551234567'', Some ''Alice'', None, Some ''+15551234567'')],
      message_rows = (\<lambda>c. if c = ''+15551234567'' then Some alice_messages else Some []),
      attachment_rows = (\<lambda>i. if i = 1 then Some [photo] else Some [])\<rparr>"

definition alice_chats :: "(string \<times> chat_info) list" where
  "alice_chats =
     [(''+15551234567'',
       \<lparr>display_name = Some ''Alice'', handles = [''+15551234567''],
        chat_identifier = ''+15551234567''\<rparr>)]"

definition alice_disk :: filesystem where
  "alice_disk =
     \<lparr>nodes = [''/Users/me/Library/Messages/chat.db'' \<mapsto> File ''SQLite'',
               ''/a/x.jpg'' \<mapsto> File ''JPG''],
      refused = {}\<rparr>"

definition alice_folder :: string where
  "alice_folder = join (join OUTPUT_DIR ''attachments'') ''Alice (+15551234567)''"





section \<open>Identifier sanitizer\<close>







section \<open>Timestamp codec: no exception escapes\<close>





section \<open>Attachment resolver: the first checks\<close>







text \<open>
  C2, evaluated on the code. The file name of \<open>plugin_sticker\<close> ends in
  \<^verbatim>\<open>.pluginPayloadAttachment\<close> and \<open>is_plugin_attachment\<close> recognises it, but
  \<open>copy_attachment\<close> never calls \<open>is_plugin_attachment\<close>: with the recorded path not on
  disk the attachment is answered with \<^verbatim>\<open>(False, "Source file not found: ...")\<close>, the
  loop writes a \<^verbatim>\<open>Missing Attachment\<close> line and increments
  \<^verbatim>\<open>attachments_failed\<close>.
\<close>

theorem plugin_attachment_counted_failed:
  "is_plugin_attachment (filename plugin_sticker)
   \<and> fst (copy_attachment shipped_config plugin_sticker ''/out'' (start_state empty_disk))
     = Inr (False, ''Source file not found: /missing/sticker.pluginPayloadAttachment'')
   \<and> fst (attachment_step shipped_config ''/out'' ''2023-03-08 20:26:40'' ''Alice''
             [plugin_sticker] plugin_sticker [] (start_state empty_disk))
     = Inr [''[2023-03-08 20:26:40] Alice: [Missing Attachment: sticker.pluginPayloadAttachment]'']
   \<and> stats (snd (attachment_step shipped_config ''/out'' ''2023-03-08 20:26:40'' ''Alice''
                    [plugin_sticker] plugin_sticker [] (start_state empty_disk)))
       ''attachments_failed''
     = Some (Num 1)"
  by code_simp

section \<open>Invariants of the export loop\<close>

text \<open>
  A property of the state that every increment keeps, and that every write to the disk
  keeps when the run is not a dry run, holds after each step of the export and after the
  whole of it, whether the step returns or raises.
\<close>

lemma then_do_inv:
  "I (snd r) \<Longrightarrow> (\<And>a st. I st \<Longrightarrow> I (snd (f a st))) \<Longrightarrow> I (snd (then_do r f))"
  by (auto simp: then_do_def split: prod.splits sum.splits)

lemma lookup_state [simp]: "snd (lookup key st) = st"
  by (simp add: lookup_def split: option.splits)

lemma positive_state [simp]: "snd (positive v st) = st"
  by (simp add: positive_def split: stat.splits)

lemma on_disk_inv:
  "(\<And>st d. I st \<Longrightarrow> I (st\<lparr>fs := d\<rparr>)) \<Longrightarrow> I st \<Longrightarrow> I (snd (on_disk op st))"
  by (auto simp: on_disk_def split: sum.splits)

lemma copy_attachment_inv:
  assumes incr: "\<And>key st. I st \<Longrightarrow> I (snd (incr key st))"
    and disk: "\<And>st d. \<not> DRY_RUN cfg \<Longrightarrow> I st \<Longrightarrow> I (st\<lparr>fs := d\<rparr>)"
    and "I st"
  shows "I (snd (copy_attachment cfg a folder st))"
  using assms
  by (auto simp: copy_attachment_def Let_def intro!: then_do_inv [where I = I]
           split: option.splits sum.splits exn.splits)

lemma attachment_step_inv:
  assumes incr: "\<And>key st. I st \<Longrightarrow> I (snd (incr key st))"
    and disk: "\<And>st d. \<not> DRY_RUN cfg \<Longrightarrow> I st \<Longrightarrow> I (st\<lparr>fs := d\<rparr>)"
    and "I st"
  shows "I (snd (attachment_step cfg folder ts sender as a content st))"
  unfolding attachment_step_def
  by (intro allI impI conjI then_do_inv [where I = I] incr assms
            copy_attachment_inv [where I = I]
      | simp split: prod.splits)+

lemma process_attachments_inv:
  assumes incr: "\<And>key st. I st \<Longrightarrow> I (snd (incr key st))"
    and disk: "\<And>st d. \<not> DRY_RUN cfg \<Longrightarrow> I st \<Longrightarrow> I (st\<lparr>fs := d\<rparr>)"
    and "I st"
  shows "I (snd (process_attachments cfg folder ts sender as rest content st))"
  using \<open>I st\<close>
proof (induction rest arbitrary: content st)
  case Nil
  then show ?case by simp
next
  case (Cons a rest)
  have step: "I (snd (attachment_step cfg folder ts sender as a content st))"
    using attachment_step_inv [where I = I, OF incr disk Cons.prems] by simp
  show ?case
  proof (cases "attachment_step cfg folder ts sender as a content st")
    case (Pair r st1)
    then show ?thesis using step Cons.IH by (cases r) auto
  qed
qed

lemma message_step_inv:
  assumes incr: "\<And>key st. I st \<Longrightarrow> I (snd (incr key st))"
    and disk: "\<And>st d. \<not> DRY_RUN cfg \<Longrightarrow> I st \<Longrightarrow> I (st\<lparr>fs := d\<rparr>)"
    and "I st"
  shows "I (snd (message_step cfg db info folder m content st))"
  unfolding message_step_def
  by (intro allI impI conjI then_do_inv [where I = I] incr assms
      | simp add: Let_def process_attachments_inv [where I = I, OF incr disk] split: sum.splits)+

lemma process_messages_inv:
  assumes incr: "\<And>key st. I st \<Longrightarrow> I (snd (incr key st))"
    and disk: "\<And>st d. \<not> DRY_RUN cfg \<Longrightarrow> I st \<Longrightarrow> I (st\<lparr>fs := d\<rparr>)"
    and "I st"
  shows "I (snd (process_messages cfg db info folder ms content st))"
  using \<open>I st\<close>
proof (induction ms arbitrary: content st)
  case Nil
  then show ?case by simp
next
  case (Cons m ms)
  have step: "I (snd (message_step cfg db info folder m content st))"
    using message_step_inv [where I = I, OF incr disk Cons.prems] by simp
  show ?case
  proof (cases "message_step cfg db info folder m content st")
    case (Pair r st1)
    then show ?thesis using step Cons.IH by (cases r) auto
  qed
qed

lemma create_contact_folder_inv:
  assumes disk: "\<And>st d. \<not> DRY_RUN cfg \<Longrightarrow> I st \<Longrightarrow> I (st\<lparr>fs := d\<rparr>)"
    and "I st"
  shows "I (snd (create_contact_folder cfg info st))"
  using assms
  by (auto simp: create_contact_folder_def Let_def
           intro!: then_do_inv [where I = I] on_disk_inv [where I = I])

lemma chat_step_inv:
  assumes incr: "\<And>key st. I st \<Longrightarrow> I (snd (incr key st))"
    and disk: "\<And>st d. \<not> DRY_RUN cfg \<Longrightarrow> I st \<Longrightarrow> I (st\<lparr>fs := d\<rparr>)"
    and "I st"
  shows "I (snd (chat_step cfg db c content st))"
  unfolding chat_step_def
  by (cases c)
     (auto simp: Let_def \<open>I st\<close>
           intro!: then_do_inv [where I = I] incr create_contact_folder_inv [where I = I, OF disk]
                   process_messages_inv [where I = I, OF incr disk])

lemma process_chats_inv:
  assumes incr: "\<And>key st. I st \<Longrightarrow> I (snd (incr key st))"
    and disk: "\<And>st d. \<not> DRY_RUN cfg \<Longrightarrow> I st \<Longrightarrow> I (st\<lparr>fs := d\<rparr>)"
    and "I st"
  shows "I (snd (process_chats cfg db cs content st))"
  using \<open>I st\<close>
proof (induction cs arbitrary: content st)
  case Nil
  then show ?case by simp
next
  case (Cons c cs)
  have step: "I (snd (chat_step cfg db c content st))"
    using chat_step_inv [where I = I, OF incr disk Cons.prems] by simp
  show ?case
  proof (cases "chat_step cfg db c content st")
    case (Pair r st1)
    then show ?thesis using step Cons.IH by (cases r) auto
  qed
qed

lemma export_steps_inv:
  assumes incr: "\<And>key st. I st \<Longrightarrow> I (snd (incr key st))"
    and disk: "\<And>st d. \<not> DRY_RUN cfg \<Longrightarrow> I st \<Longrightarrow> I (st\<lparr>fs := d\<rparr>)"
    and "I st"
  shows "I (snd (export_steps cfg db chats st))"
  unfolding export_steps_def
  by (auto simp: \<open>I st\<close>
           intro!: then_do_inv [where I = I] on_disk_inv [where I = I] disk
                   process_chats_inv [where I = I, OF incr disk])

lemma incr_dom: "dom (stats (snd (incr key st))) = dom (stats st)"
  by (auto simp: incr_def split: option.splits stat.splits)

lemma export_steps_dom: "dom (stats (snd (export_steps cfg db chats st))) = dom (stats st)"
  by (rule export_steps_inv [where I = "\<lambda>s. dom (stats s) = dom (stats st)"])
     (simp_all add: incr_dom)



section \<open>The summary step\<close>

lemma print_summary_key_error:
  "stats st ''earliest_message'' = None \<Longrightarrow>
   print_summary cfg st = (Inl (KeyError ''earliest_message''), st)"
  by (simp add: print_summary_def lookup_def then_do_def)

lemma export_steps_no_earliest:
  "export_steps cfg db chats (start_state disk) = (r, st) \<Longrightarrow> stats st ''earliest_message'' = None"
proof -
  assume run: "export_steps cfg db chats (start_state disk) = (r, st)"
  have "dom (stats (snd (export_steps cfg db chats (start_state disk)))) = dom init_stats"
    using export_steps_dom [of cfg db chats "start_state disk"] by (simp add: start_state_def)
  then have "dom (stats st) = dom init_stats"
    using run by simp
  moreover have "''earliest_message'' \<notin> dom init_stats"
    by (simp add: init_stats_def)
  ultimately show ?thesis by blast
qed

lemma then_do_Inr:
  "then_do r f = (Inr x, st) \<Longrightarrow> \<exists>a st1. r = (Inr a, st1) \<and> f a st1 = (Inr x, st)"
  by (auto simp: then_do_def split: prod.splits sum.splits)

lemma write_file_written:
  "on_disk (write_file p d) st1 = (Inr u, st) \<Longrightarrow> nodes (fs st) p = Some (File d)"
  by (auto simp: on_disk_def write_file_def split: sum.splits if_splits)

lemma export_steps_transcript:
  assumes "\<not> DRY_RUN cfg"
    and "export_steps cfg db chats st0 = (Inr messages_content, st)"
  shows "nodes (fs st) (join OUTPUT_DIR ''messages.txt'') = Some (File (join_lines messages_content))"
proof -
  have "\<exists>st2 u. on_disk (write_file (join OUTPUT_DIR ''messages.txt'')
                          (join_lines messages_content)) st2 = (Inr u, st)"
    using assms unfolding export_steps_def by (auto dest!: then_do_Inr)
  then show ?thesis by (auto dest: write_file_written)
qed

text \<open>
  C5. Take a run on a fresh exporter that reaches the summary step: the database opens,
  the list of conversations is not empty, and the steps before the summary return the
  transcript lines in state \<open>st\<close>. Then \<open>print_summary\<close> raises
  \<^verbatim>\<open>KeyError('earliest_message')\<close> at its first read and leaves the state as it is, so
  it writes no \<^verbatim>\<open>failed_attachments.txt\<close>; \<open>export_conversations\<close> returns
  \<^verbatim>\<open>False\<close> in that same state; when the run is not a dry run that state holds
  \<^verbatim>\<open>messages.txt\<close> with the transcript; and \<open>main\<close>, when \<open>setup_logging\<close> left the
  disk the run started on, returns the exit status 1.
\<close>

theorem summary_raises_key_error:
  assumes "connect_to_database cfg db disk"
    and "get_contacts_and_chats db = Inr chats"
    and "chats \<noteq> []"
    and "export_steps cfg db chats (start_state disk) = (Inr messages_content, st)"
  shows "print_summary cfg st = (Inl (KeyError ''earliest_message''), st)
    \<and> export_conversations cfg db (start_state disk) = (False, st)
    \<and> (\<not> DRY_RUN cfg \<longrightarrow>
         nodes (fs st) (join OUTPUT_DIR ''messages.txt'') = Some (File (join_lines messages_content)))
    \<and> (setup_logging disk0 = (None, disk) \<longrightarrow> main cfg db disk0 = (1, fs st))"
proof -
  have absent: "stats st ''earliest_message'' = None"
    using assms(4) by (rule export_steps_no_earliest)
  have summary: "print_summary cfg st = (Inl (KeyError ''earliest_message''), st)"
    using absent by (rule print_summary_key_error)
  have tried: "export_try cfg db (start_state disk) = (Inl (KeyError ''earliest_message''), st)"
    using assms(2,3,4) summary by (simp add: export_try_def then_do_def)
  have export: "export_conversations cfg db (start_state disk) = (False, st)"
    using assms(1) tried by (simp add: export_conversations_def start_state_def)
  have transcript: "nodes (fs st) (join OUTPUT_DIR ''messages.txt'')
                    = Some (File (join_lines messages_content))" if "\<not> DRY_RUN cfg"
    using that assms(4) by (rule export_steps_transcript)
  have exit: "main cfg db disk0 = (1, fs st)" if "setup_logging disk0 = (None, disk)"
    using that export by (simp add: main_def start_state_def)
  show ?thesis using summary export transcript exit by blast
qed

text \<open>
  The conversation with Alice reaches the summary step with four transcript lines and the
  closing empty line; the run ends with \<^verbatim>\<open>False\<close> and the exit status 1 although
  \<^verbatim>\<open>messages.txt\<close> is on disk, and there is no \<^verbatim>\<open>failed_attachments.txt\<close>.
\<close>

theorem summary_raises_key_error_witness:
  "fst (print_summary shipped_config
          (snd (export_steps shipped_config alice_db alice_chats (start_state alice_disk))))
     = Inl (KeyError ''earliest_message'')
   \<and> fst (export_conversations shipped_config alice_db (start_state alice_disk)) = False
   \<and> nodes (fs (snd (export_conversations shipped_config alice_db (start_state alice_disk))))
        (join OUTPUT_DIR ''messages.txt'')
      = Some (File (join_lines
          [''=== Conversation with Alice (+15551234567) ==='',
           ''[2023-03-08 20:26:40] You: hi'',
           ''[2023-03-08 20:26:40] You: [Attachment: x.jpg]'',
           ''[2023-03-08 20:27:40] Alice: hey'', []]))
   \<and> nodes (fs (snd (export_conversations shipped_config alice_db (start_state alice_disk))))
        (join OUTPUT_DIR ''failed_attachments.txt'') = None"
proof -
  let ?st = "snd (export_steps shipped_config alice_db alice_chats (start_state alice_disk))"
  let ?lines = "[''=== Conversation with Alice (+15551234567) ==='',
           ''[2023-03-08 20:26:40] You: hi'',
           ''[2023-03-08 20:26:40] You: [Attachment: x.jpg]'',
           ''[2023-03-08 20:27:40] Alice: hey'', []]"
  have h1: "connect_to_database shipped_config alice_db alice_disk"
    by code_simp
  have h2: "get_contacts_and_chats alice_db = Inr alice_chats"
    by code_simp
  have h3: "alice_chats \<noteq> []"
    by (simp add: alice_chats_def)
  have "fst (export_steps shipped_config alice_db alice_chats (start_state alice_disk)) = Inr ?lines"
    by code_simp
  then have h4: "export_steps shipped_config alice_db alice_chats (start_state alice_disk)
                 = (Inr ?lines, ?st)"
    by (simp add: prod_eq_iff)
  have no_report: "nodes (fs ?st) (join OUTPUT_DIR ''failed_attachments.txt'') = None"
    by code_simp
  have wet: "\<not> DRY_RUN shipped_config"
    by (simp add: shipped_config_def)
  show ?thesis
    using summary_raises_key_error [OF h1 h2 h3 h4, of alice_disk] no_report wet by simp
qed

section \<open>Exit status and resume mode, evaluated\<close>

text \<open>
  C8, evaluated on the code. For the conversation with Alice neither fatal case holds:
  the database opens and one conversation is found; both messages are processed and the
  transcript is complete. The exit status is 1 all the same.
\<close>

theorem exit_status_of_complete_run:
  "connect_to_database shipped_config alice_db alice_disk
   \<and> get_contacts_and_chats alice_db = Inr alice_chats
   \<and> fst (export_steps shipped_config alice_db alice_chats (start_state alice_disk))
     = Inr [''=== Conversation with Alice (+15551234567) ==='',
            ''[2023-03-08 20:26:40] You: hi'',
            ''[2023-03-08 20:26:40] You: [Attachment: x.jpg]'',
            ''[2023-03-08 20:27:40] Alice: hey'', []]
   \<and> fst (main shipped_config alice_db alice_disk) = 1"
  by code_simp

text \<open>
  C1, evaluated on the code. The export runs twice in resume mode, each time on a fresh
  exporter, the second time on the disk the first run left. Run 1 copies the photo
  (\<^verbatim>\<open>attachments_copied\<close> 1, \<^verbatim>\<open>attachments_skipped\<close> 0). Run 2 goes through the
  resume branch (\<^verbatim>\<open>attachments_skipped\<close> 1) and leaves the copy on disk as it was,
  and then the loop increments \<^verbatim>\<open>attachments_copied\<close> as well: the test that should
  prevent it compares the base name \<^verbatim>\<open>x.jpg\<close> with the recorded paths
  (\<^verbatim>\<open>/a/x.jpg\<close>).
\<close>

theorem resume_run_counts_skipped_as_copied:
  "(let run1 = export_conversations shipped_config alice_db (start_state alice_disk);
        run2 = export_conversations shipped_config alice_db (start_state (fs (snd run1)))
    in stats (snd run1) ''attachments_copied'' = Some (Num 1)
       \<and> stats (snd run1) ''attachments_skipped'' = Some (Num 0)
       \<and> nodes (fs (snd run1)) (join alice_folder ''x.jpg'') = Some (File ''JPG'')
       \<and> stats (snd run2) ''attachments_skipped'' = Some (Num 1)
       \<and> stats (snd run2) ''attachments_copied'' = Some (Num 1)
       \<and> nodes (fs (snd run2)) (join alice_folder ''x.jpg'') = Some (File ''JPG''))"
  by code_simp

section \<open>Transcript order\<close>








section \<open>Dry run\<close>















lemma stat_timestamp_state [simp]: "snd (stat_timestamp v st) = st"
  by (simp add: stat_timestamp_def split: stat.splits sum.splits)








end
